theory Spec2Isabelle
  imports Complex_Main
begin

section \<open>JavaScript values\<close>

text \<open>
  A JavaScript \<^verbatim>\<open>number\<close> is a finite value, one of the two infinities, or NaN.
  Finite values are read as the real number they denote; the literals of the source
  (\<^verbatim>\<open>0.2\<close>, \<^verbatim>\<open>-0.05\<close>, ...) are read as the decimal written.
  Every comparison with NaN is false.
\<close>

datatype jsnum = NegInf | Num real | PosInf | NaN

fun js_lt :: "jsnum \<Rightarrow> jsnum \<Rightarrow> bool" where
  "js_lt NaN _ = False"
| "js_lt _ NaN = False"
| "js_lt (Num a) (Num b) = (a < b)"
| "js_lt _ NegInf = False"
| "js_lt NegInf _ = True"
| "js_lt PosInf _ = False"
| "js_lt (Num _) PosInf = True"

fun js_le :: "jsnum \<Rightarrow> jsnum \<Rightarrow> bool" where
  "js_le NaN _ = False"
| "js_le _ NaN = False"
| "js_le (Num a) (Num b) = (a \<le> b)"
| "js_le NegInf _ = True"
| "js_le _ PosInf = True"
| "js_le PosInf _ = False"
| "js_le (Num _) NegInf = False"

definition js_gt :: "jsnum \<Rightarrow> jsnum \<Rightarrow> bool" where
  "js_gt a b = js_lt b a"

definition js_ge :: "jsnum \<Rightarrow> jsnum \<Rightarrow> bool" where
  "js_ge a b = js_le b a"

text \<open>
  A value that may be \<^verbatim>\<open>undefined\<close> or \<^verbatim>\<open>null\<close>. Objects and arrays are
  always truthy (the empty array too); a string is truthy unless it is empty.
\<close>

datatype 'a nullable = Undefined | Null | Val 'a

fun truthy_str :: "string option \<Rightarrow> bool" where
  "truthy_str None = False"
| "truthy_str (Some s) = (s \<noteq> [])"

section \<open>Data model (lib/api.ts)\<close>

text \<open>
  The interfaces of the API client. A field name that two interfaces share is prefixed in
  one of them: \<open>headline_score\<close> is \<^verbatim>\<open>Headline.sentiment_score\<close>, and
  \<open>detail_code\<close>, \<open>detail_name\<close>, \<open>detail_article_count\<close> are the
  \<^verbatim>\<open>country_code\<close>, \<^verbatim>\<open>country_name\<close>, \<^verbatim>\<open>article_count\<close> of
  \<^verbatim>\<open>CountryDetail\<close>.
\<close>

record HourlyTrend =
  hour :: string
  sentiment :: jsnum
  articles :: jsnum

record Headline =
  id :: jsnum
  title :: string
  source_name :: string
  source_type :: "string option"
  headline_score :: jsnum
  sentiment_label :: string
  url :: string
  published_at :: "string option"
  created_at :: "string option"

record CountryDetail =
  detail_code :: string
  detail_name :: string
  current_sentiment :: jsnum
  detail_article_count :: jsnum
  hourly_trend :: "HourlyTrend list"
  top_headlines :: "Headline list"
  source_breakdown :: "(string \<times> jsnum) list"

record CountryData =
  country_code :: string
  country_name :: string
  sentiment_score :: jsnum
  article_count :: jsnum
  trend :: "jsnum option"

record GlobalSentiment =
  countries :: "CountryData list"
  global_average :: jsnum
  total_articles :: jsnum
  last_updated :: string

section \<open>Sentiment labels (lib/utils.ts)\<close>

definition getSentimentLabel :: "jsnum \<Rightarrow> string" where
  "getSentimentLabel score =
     (if js_ge score (Num 0.2) then ''Positive''
      else if js_ge score (Num 0.05) then ''Leaning Positive''
      else if js_gt score (Num (- 0.05)) then ''Neutral''
      else if js_gt score (Num (- 0.2)) then ''Leaning Negative''
      else ''Negative'')"

section \<open>Sentiment buckets of the dashboard (app/page.tsx)\<close>

text \<open>
  \<^verbatim>\<open>data\<close> is \<^verbatim>\<open>undefined\<close> until the first fetch resolves; each bucket is
  \<^verbatim>\<open>data?.countries.filter(...) || []\<close>.
\<close>

definition positiveCountries :: "GlobalSentiment option \<Rightarrow> CountryData list" where
  "positiveCountries data =
     (case data of None \<Rightarrow> []
      | Some d \<Rightarrow> filter (\<lambda>c. js_gt (sentiment_score c) (Num 0.2)) (countries d))"

definition negativeCountries :: "GlobalSentiment option \<Rightarrow> CountryData list" where
  "negativeCountries data =
     (case data of None \<Rightarrow> []
      | Some d \<Rightarrow> filter (\<lambda>c. js_lt (sentiment_score c) (Num (- 0.2))) (countries d))"

definition neutralCountries :: "GlobalSentiment option \<Rightarrow> CountryData list" where
  "neutralCountries data =
     (case data of None \<Rightarrow> []
      | Some d \<Rightarrow> filter (\<lambda>c. js_ge (sentiment_score c) (Num (- 0.2))
                             \<and> js_le (sentiment_score c) (Num 0.2)) (countries d))"

definition positiveCount :: "GlobalSentiment option \<Rightarrow> nat" where
  "positiveCount data = length (positiveCountries data)"

definition negativeCount :: "GlobalSentiment option \<Rightarrow> nat" where
  "negativeCount data = length (negativeCountries data)"

definition neutralCount :: "GlobalSentiment option \<Rightarrow> nat" where
  "neutralCount data = length (neutralCountries data)"

text \<open>The list the buckets are taken from: \<^verbatim>\<open>data?.countries || []\<close>.\<close>

definition loadedCountries :: "GlobalSentiment option \<Rightarrow> CountryData list" where
  "loadedCountries data = (case data of None \<Rightarrow> [] | Some d \<Rightarrow> countries d)"

section \<open>Sentiment colour mapper (lib/utils.ts)\<close>

text \<open>
  The mapper is modelled on finite scores, over the reals. The returned string
  \<^verbatim>\<open>rgb(r, g, b)\<close> is represented by its three channel values.
  \<^verbatim>\<open>Math.round\<close> rounds halves upwards, as \<^const>\<open>round\<close> does.
\<close>

definition clamp :: "real \<Rightarrow> real \<Rightarrow> real \<Rightarrow> real" where
  "clamp v lo hi = min (max v lo) hi"

record rgb =
  red :: int
  green :: int
  blue :: int

definition negative :: rgb where
  "negative = \<lparr>red = 196, green = 131, blue = 122\<rparr>"

definition neutral :: rgb where
  "neutral = \<lparr>red = 184, green = 168, blue = 152\<rparr>"

definition positive :: rgb where
  "positive = \<lparr>red = 107, green = 142, blue = 107\<rparr>"

definition interpolateSentimentColor :: "real \<Rightarrow> rgb" where
  "interpolateSentimentColor score =
     (let s = clamp score (- 1) 1 in
      if s < 0 then
        (let t = s + 1 in
         \<lparr>red = round (of_int (red negative) + (of_int (red neutral) - of_int (red negative)) * t),
          green = round (of_int (green negative) + (of_int (green neutral) - of_int (green negative)) * t),
          blue = round (of_int (blue negative) + (of_int (blue neutral) - of_int (blue negative)) * t)\<rparr>)
      else
        (let t = s in
         \<lparr>red = round (of_int (red neutral) + (of_int (red positive) - of_int (red neutral)) * t),
          green = round (of_int (green neutral) + (of_int (green positive) - of_int (green neutral)) * t),
          blue = round (of_int (blue neutral) + (of_int (blue positive) - of_int (blue neutral)) * t)\<rparr>))"

section \<open>Geo projector (Globe component)\<close>

datatype Vector3 = Vector3 (vx: real) (vy: real) (vz: real)

definition latLongToVector3 :: "real \<Rightarrow> real \<Rightarrow> real \<Rightarrow> Vector3" where
  "latLongToVector3 lat lon radius =
     (let phi = (90 - lat) * (pi / 180);
          theta = (lon + 180) * (pi / 180)
      in Vector3 (- radius * sin phi * cos theta)
                 (radius * cos phi)
                 (radius * sin phi * sin theta))"

section \<open>Country-detail hook (hooks/useSentiment)\<close>

text \<open>
  What one \<^verbatim>\<open>useSWR\<close> call hands back: the cached data (\<^verbatim>\<open>undefined\<close> until a
  fetch resolves), the error of the last failed fetch (\<^verbatim>\<open>undefined\<close> when there is
  none; the fetchers only throw \<^verbatim>\<open>Error\<close> objects, which are truthy and are
  represented by their message), and the loading flag.
\<close>

record 'a swr_response =
  swr_data :: "'a nullable"
  swr_error :: "string option"
  swr_isLoading :: bool

text \<open>With a \<^verbatim>\<open>null\<close> key \<^verbatim>\<open>useSWR\<close> does not fetch and returns nothing.\<close>

definition useSWR :: "string option \<Rightarrow> 'a swr_response \<Rightarrow> 'a swr_response" where
  "useSWR key entry =
     (case key of
        None \<Rightarrow> \<lparr>swr_data = Undefined, swr_error = None, swr_isLoading = False\<rparr>
      | Some _ \<Rightarrow> entry)"

record country_detail_result =
  data :: "CountryDetail option"
  error :: "string option"
  isLoading :: bool

text \<open>
  \<^verbatim>\<open>useCountryDetail(countryCode)\<close>, given the cache entries that the two keys
  \<^verbatim>\<open>country-<code>\<close> and \<^verbatim>\<open>headlines-<code>\<close> currently hold.
\<close>

definition useCountryDetail ::
  "string option \<Rightarrow> CountryDetail swr_response \<Rightarrow> Headline list swr_response
     \<Rightarrow> country_detail_result" where
  "useCountryDetail countryCode countryEntry headlinesEntry =
     (let country = useSWR (if truthy_str countryCode
                            then Some (''country-'' @ the countryCode) else None) countryEntry;
          hl = useSWR (if truthy_str countryCode
                       then Some (''headlines-'' @ the countryCode) else None) headlinesEntry;
          countryData = swr_data country;
          headlines = swr_data hl
      in \<lparr>data = (case countryData of
                   Val cd \<Rightarrow>
                     Some (cd\<lparr>top_headlines :=
                                (case headlines of Val hs \<Rightarrow> hs | _ \<Rightarrow> top_headlines cd)\<rparr>)
                 | _ \<Rightarrow> None),
          error = (case swr_error country of Some e \<Rightarrow> Some e | None \<Rightarrow> swr_error hl),
          isLoading = (swr_isLoading country \<or> swr_isLoading hl)\<rparr>)"

text \<open>
  The two cache entries over time, as the SWR library keeps them. Each fetcher finishes a
  fetch either with a value or with an error; a value replaces the data and clears the
  error, an error is stored and the last good data is kept. Beside the entries the history keeps, for each stored error,
  the position in the sequence of outcomes at which it arrived, so that "the first of the
  two errors in time" can be stated. The hook never reads these positions.
\<close>

datatype fetch_outcome =
    CountryResolved CountryDetail
  | CountryRejected string
  | HeadlinesResolved "Headline list"
  | HeadlinesRejected string

record hook_cache =
  country_slot :: "CountryDetail swr_response"
  headlines_slot :: "Headline list swr_response"
  tick :: nat
  countryErrorAt :: nat
  headlinesErrorAt :: nat

definition initial_cache :: hook_cache where
  "initial_cache =
     \<lparr>country_slot = \<lparr>swr_data = Undefined, swr_error = None, swr_isLoading = True\<rparr>,
      headlines_slot = \<lparr>swr_data = Undefined, swr_error = None, swr_isLoading = True\<rparr>,
      tick = 0, countryErrorAt = 0, headlinesErrorAt = 0\<rparr>"

fun deliver :: "hook_cache \<Rightarrow> fetch_outcome \<Rightarrow> hook_cache" where
  "deliver c (CountryResolved v) =
     c\<lparr>country_slot := \<lparr>swr_data = Val v, swr_error = None, swr_isLoading = False\<rparr>,
       tick := Suc (tick c)\<rparr>"
| "deliver c (CountryRejected e) =
     c\<lparr>country_slot := (country_slot c)\<lparr>swr_error := Some e, swr_isLoading := False\<rparr>,
       countryErrorAt := Suc (tick c), tick := Suc (tick c)\<rparr>"
| "deliver c (HeadlinesResolved v) =
     c\<lparr>headlines_slot := \<lparr>swr_data = Val v, swr_error = None, swr_isLoading = False\<rparr>,
       tick := Suc (tick c)\<rparr>"
| "deliver c (HeadlinesRejected e) =
     c\<lparr>headlines_slot := (headlines_slot c)\<lparr>swr_error := Some e, swr_isLoading := False\<rparr>,
       headlinesErrorAt := Suc (tick c), tick := Suc (tick c)\<rparr>"

definition deliver_all :: "fetch_outcome list \<Rightarrow> hook_cache" where
  "deliver_all outcomes = foldl deliver initial_cache outcomes"

text \<open>
  The composite error as the specification words it: of the two stored errors, the one
  that arrived first.
\<close>

definition first_error_in_time :: "hook_cache \<Rightarrow> string option" where
  "first_error_in_time c =
     (case (swr_error (country_slot c), swr_error (headlines_slot c)) of
        (Some ec, Some eh) \<Rightarrow>
          Some (if countryErrorAt c < headlinesErrorAt c then ec else eh)
      | (Some ec, None) \<Rightarrow> Some ec
      | (None, eh) \<Rightarrow> eh)"

definition hook_view :: "string option \<Rightarrow> hook_cache \<Rightarrow> country_detail_result" where
  "hook_view countryCode c = useCountryDetail countryCode (country_slot c) (headlines_slot c)"

section \<open>Dashboard controller (app/page.tsx)\<close>

text \<open>
  The selection state of \<^verbatim>\<open>Home\<close>, with the clock in milliseconds and the due times
  of the pending \<^verbatim>\<open>setTimeout\<close> callbacks. Every callback scheduled by the component
  is \<^verbatim>\<open>() => setSelectedCountry(null)\<close>, so a due time is all a pending timer holds.
\<close>

record home_state =
  selectedCountry :: "string option"
  showPanel :: bool
  clock :: nat
  timers :: "nat list"

definition initial_home :: home_state where
  "initial_home = \<lparr>selectedCountry = None, showPanel = False, clock = 0, timers = []\<rparr>"

definition handleCountrySelect :: "string option \<Rightarrow> home_state \<Rightarrow> home_state" where
  "handleCountrySelect countryCode s =
     (if truthy_str countryCode
      then s\<lparr>selectedCountry := countryCode, showPanel := True\<rparr>
      else s\<lparr>showPanel := False, timers := timers s @ [clock s + 200]\<rparr>)"

text \<open>
  Time passing: the clock advances by \<open>dt\<close> milliseconds and every timer that is due by
  then runs its callback and is removed.
\<close>

definition elapse :: "nat \<Rightarrow> home_state \<Rightarrow> home_state" where
  "elapse dt s =
     (let now = clock s + dt;
          due = filter (\<lambda>d. d \<le> now) (timers s)
      in s\<lparr>selectedCountry := (if due = [] then selectedCountry s else None),
           clock := now,
           timers := filter (\<lambda>d. \<not> d \<le> now) (timers s)\<rparr>)"

datatype home_event = SelectCountry "string option" | Elapse nat

fun home_step :: "home_state \<Rightarrow> home_event \<Rightarrow> home_state" where
  "home_step s (SelectCountry code) = handleCountrySelect code s"
| "home_step s (Elapse dt) = elapse dt s"

definition home_run :: "home_event list \<Rightarrow> home_state" where
  "home_run evs = foldl home_step initial_home evs"

text \<open>
  A sequence of events in which no country is selected while a deferred clear is pending.
\<close>

fun no_select_while_pending :: "home_state \<Rightarrow> home_event list \<Rightarrow> bool" where
  "no_select_while_pending s [] = True"
| "no_select_while_pending s (ev # evs) =
     ((case ev of SelectCountry code \<Rightarrow> truthy_str code \<longrightarrow> timers s = [] | Elapse _ \<Rightarrow> True)
      \<and> no_select_while_pending (home_step s ev) evs)"

text \<open>The invariant that such sequences keep.\<close>

definition inv_panel :: "home_state \<Rightarrow> bool" where
  "inv_panel s = (showPanel s \<longrightarrow> selectedCountry s \<noteq> None \<and> timers s = [])"

section \<open>Sample values\<close>

definition sample_country :: "string \<Rightarrow> jsnum \<Rightarrow> CountryData" where
  "sample_country code score =
     \<lparr>country_code = code, country_name = code, sentiment_score = score,
      article_count = Num 1, trend = None\<rparr>"

definition sample_snapshot :: "CountryData list \<Rightarrow> GlobalSentiment" where
  "sample_snapshot cs =
     \<lparr>countries = cs, global_average = Num 0, total_articles = Num 0, last_updated = []\<rparr>"

definition sample_headline :: "real \<Rightarrow> Headline" where
  "sample_headline n =
     \<lparr>id = Num n, title = ''t'', source_name = ''s'', source_type = None,
      headline_score = Num 0, sentiment_label = ''neutral'', url = ''u'',
      published_at = None, created_at = None\<rparr>"

definition sample_detail :: "Headline list \<Rightarrow> CountryDetail" where
  "sample_detail hs =
     \<lparr>detail_code = ''JP'', detail_name = ''Japan'', current_sentiment = Num 0,
      detail_article_count = Num 1, hourly_trend = [], top_headlines = hs,
      source_breakdown = []\<rparr>"

definition clear_pending :: home_state where
  "clear_pending = home_run [SelectCountry (Some ''JP''), SelectCountry None]"

section \<open>Deferred clear and a newer selection\<close>

lemma clear_pending_state:
  "clear_pending = \<lparr>selectedCountry = Some ''JP'', showPanel = False, clock = 0, timers = [200]\<rparr>"
  by (simp add: clear_pending_def home_run_def initial_home_def handleCountrySelect_def)

text \<open>
  C1, as stated, fails. After selecting JP and clearing the selection, a clear is pending
  (due at 200 ms). Selecting US at once leaves that timer pending, and when the 200 ms
  have elapsed the selected country is null, not US.
\<close>

theorem stale_clear_counterexample:
  "timers (home_run [SelectCountry (Some ''JP''), SelectCountry None]) = [200]
   \<and> timers (home_run [SelectCountry (Some ''JP''), SelectCountry None,
                        SelectCountry (Some ''US'')]) = [200]
   \<and> selectedCountry (home_run [SelectCountry (Some ''JP''), SelectCountry None,
                                 SelectCountry (Some ''US''), Elapse 200]) = None
   \<and> selectedCountry (home_run [SelectCountry (Some ''JP''), SelectCountry None,
                                 SelectCountry (Some ''US''), Elapse 200]) \<noteq> Some ''US''"
  by (simp add: home_run_def initial_home_def handleCountrySelect_def elapse_def Let_def)

text \<open>
  C1, amended. When a country is selected with a non-null, non-empty code while a deferred
  clear is pending, the selection is applied at once (selected country = code, panel
  visible) and the pending clear is not cancelled: the selected country stays the new code
  as long as no pending clear is due, and is null, with the panel still visible, once one
  of them has come due.
\<close>

theorem select_while_clear_pending:
  assumes "truthy_str (Some code)" and "timers s \<noteq> []"
  shows "selectedCountry (handleCountrySelect (Some code) s) = Some code
       \<and> showPanel (handleCountrySelect (Some code) s)
       \<and> timers (handleCountrySelect (Some code) s) = timers s
       \<and> (\<forall>dt. (\<forall>d \<in> set (timers s). clock s + dt < d) \<longrightarrow>
             selectedCountry (elapse dt (handleCountrySelect (Some code) s)) = Some code
           \<and> showPanel (elapse dt (handleCountrySelect (Some code) s)))
       \<and> (\<forall>dt. (\<exists>d \<in> set (timers s). d \<le> clock s + dt) \<longrightarrow>
             selectedCountry (elapse dt (handleCountrySelect (Some code) s)) = None
           \<and> showPanel (elapse dt (handleCountrySelect (Some code) s)))"
proof -
  let ?s' = "handleCountrySelect (Some code) s"
  have s': "?s' = s\<lparr>selectedCountry := Some code, showPanel := True\<rparr>"
    using assms(1) by (simp add: handleCountrySelect_def)
  have early: "filter (\<lambda>d. d \<le> clock s + dt) (timers s) = []"
    if "\<forall>d \<in> set (timers s). clock s + dt < d" for dt
    using that by (auto simp: filter_empty_conv)
  have late: "filter (\<lambda>d. d \<le> clock s + dt) (timers s) \<noteq> []"
    if "\<exists>d \<in> set (timers s). d \<le> clock s + dt" for dt
    using that by (auto simp: filter_empty_conv)
  show ?thesis
    using early late by (simp add: s' elapse_def Let_def)
qed

text \<open>
  Witness for C1 amended: US is selected while the clear scheduled after JP is pending;
  after 199 ms the selection is still US, after 200 ms it is null and the panel is shown.
\<close>

theorem select_while_clear_pending_witness:
  "truthy_str (Some ''US'') \<and> timers clear_pending \<noteq> []
   \<and> selectedCountry (handleCountrySelect (Some ''US'') clear_pending) = Some ''US''
   \<and> timers (handleCountrySelect (Some ''US'') clear_pending) = [200]
   \<and> selectedCountry (elapse 199 (handleCountrySelect (Some ''US'') clear_pending)) = Some ''US''
   \<and> selectedCountry (elapse 200 (handleCountrySelect (Some ''US'') clear_pending)) = None
   \<and> showPanel (elapse 200 (handleCountrySelect (Some ''US'') clear_pending))"
proof -
  have h1: "truthy_str (Some ''US'')" by simp
  have h2: "timers clear_pending \<noteq> []" by (simp add: clear_pending_state)
  note t = select_while_clear_pending[OF h1 h2]
  have a: "selectedCountry (handleCountrySelect (Some ''US'') clear_pending) = Some ''US''"
    using t by blast
  have b: "timers (handleCountrySelect (Some ''US'') clear_pending) = [200]"
    using t by (simp add: clear_pending_state)
  have e: "\<forall>d \<in> set (timers clear_pending). clock clear_pending + 199 < d"
    by (simp add: clear_pending_state)
  have l: "\<exists>d \<in> set (timers clear_pending). d \<le> clock clear_pending + 200"
    by (simp add: clear_pending_state)
  have c: "selectedCountry (elapse 199 (handleCountrySelect (Some ''US'') clear_pending)) = Some ''US''"
    using t e by blast
  have d: "selectedCountry (elapse 200 (handleCountrySelect (Some ''US'') clear_pending)) = None
         \<and> showPanel (elapse 200 (handleCountrySelect (Some ''US'') clear_pending))"
    using t l by blast
  from h1 h2 a b c d show ?thesis by blast
qed

section \<open>Panel visibility and selection\<close>

text \<open>
  C2, as stated, fails: the state reached by selecting JP, clearing, selecting US and
  letting 200 ms pass has the panel visible and no selected country.
\<close>

theorem panel_invariant_counterexample:
  "showPanel (home_run [SelectCountry (Some ''JP''), SelectCountry None,
                        SelectCountry (Some ''US''), Elapse 200])
   \<and> selectedCountry (home_run [SelectCountry (Some ''JP''), SelectCountry None,
                                 SelectCountry (Some ''US''), Elapse 200]) = None"
  by (simp add: home_run_def initial_home_def handleCountrySelect_def elapse_def Let_def)

lemma inv_panel_step:
  assumes "inv_panel s"
    and "case ev of SelectCountry code \<Rightarrow> truthy_str code \<longrightarrow> timers s = [] | Elapse _ \<Rightarrow> True"
  shows "inv_panel (home_step s ev)"
proof (cases ev)
  case (SelectCountry code)
  with assms show ?thesis
    by (cases code) (auto simp: inv_panel_def handleCountrySelect_def)
next
  case (Elapse dt)
  with assms show ?thesis
    by (auto simp: inv_panel_def elapse_def Let_def)
qed

lemma inv_panel_run:
  "inv_panel s \<Longrightarrow> no_select_while_pending s evs \<Longrightarrow> inv_panel (foldl home_step s evs)"
proof (induction evs arbitrary: s)
  case Nil
  then show ?case by simp
next
  case (Cons ev evs)
  from Cons.prems have "inv_panel (home_step s ev)"
    by (intro inv_panel_step) simp_all
  moreover from Cons.prems have "no_select_while_pending (home_step s ev) evs" by simp
  ultimately show ?case using Cons.IH by simp
qed

text \<open>
  C2, amended. In every state reachable from the initial state by a sequence of selections
  and elapsing time in which no country is selected while a deferred clear is pending,
  a visible panel implies a selected country.
\<close>

theorem panel_invariant_without_overlap:
  assumes "no_select_while_pending initial_home evs"
  shows "showPanel (home_run evs) \<longrightarrow> selectedCountry (home_run evs) \<noteq> None"
proof -
  have "inv_panel initial_home" by (simp add: inv_panel_def initial_home_def)
  from inv_panel_run[OF this assms] show ?thesis
    by (simp add: home_run_def inv_panel_def)
qed

text \<open>
  Witness for C2 amended: JP is selected and cleared, the clear fires after 200 ms, and
  only then US is selected; the panel is visible and a country is selected.
\<close>

theorem panel_invariant_without_overlap_witness:
  "no_select_while_pending initial_home
     [SelectCountry (Some ''JP''), SelectCountry None, Elapse 200, SelectCountry (Some ''US'')]
   \<and> showPanel (home_run
       [SelectCountry (Some ''JP''), SelectCountry None, Elapse 200, SelectCountry (Some ''US'')])
   \<and> selectedCountry (home_run
       [SelectCountry (Some ''JP''), SelectCountry None, Elapse 200, SelectCountry (Some ''US'')])
       \<noteq> None"
proof -
  have h: "no_select_while_pending initial_home
     [SelectCountry (Some ''JP''), SelectCountry None, Elapse 200, SelectCountry (Some ''US'')]"
    by (simp add: initial_home_def handleCountrySelect_def elapse_def Let_def)
  have p: "showPanel (home_run
       [SelectCountry (Some ''JP''), SelectCountry None, Elapse 200, SelectCountry (Some ''US'')])"
    by (simp add: home_run_def initial_home_def handleCountrySelect_def elapse_def Let_def)
  from panel_invariant_without_overlap[OF h] h p show ?thesis by simp
qed

section \<open>Merging the two fetches of the country-detail hook\<close>

text \<open>
  C3. With a country code that is set (an empty code is falsy and fetches nothing) and the
  detail fetch resolved to \<open>cd\<close>, the headline list of the composite is the result of the
  headlines endpoint when there is one, and the headlines embedded in \<open>cd\<close> otherwise.
\<close>

theorem headlines_endpoint_wins:
  assumes "truthy_str countryCode" and "swr_data countryEntry = Val cd"
  shows "map_option top_headlines (data (useCountryDetail countryCode countryEntry headlinesEntry))
         = Some (case swr_data headlinesEntry of Val hs \<Rightarrow> hs | _ \<Rightarrow> top_headlines cd)"
  using assms by (simp add: useCountryDetail_def useSWR_def Let_def)

text \<open>
  Witness for C3: the detail holds headline 1; with the headlines endpoint resolved to
  headline 2 the composite shows headline 2, and headline 1 while it has not resolved.
\<close>

theorem headlines_endpoint_wins_witness:
  "map_option top_headlines
     (data (useCountryDetail (Some ''JP'')
        \<lparr>swr_data = Val (sample_detail [sample_headline 1]), swr_error = None,
         swr_isLoading = False\<rparr>
        \<lparr>swr_data = Val [sample_headline 2], swr_error = None, swr_isLoading = False\<rparr>))
     = Some [sample_headline 2]
   \<and> map_option top_headlines
     (data (useCountryDetail (Some ''JP'')
        \<lparr>swr_data = Val (sample_detail [sample_headline 1]), swr_error = None,
         swr_isLoading = False\<rparr>
        \<lparr>swr_data = Undefined, swr_error = None, swr_isLoading = True\<rparr>))
     = Some [sample_headline 1]"
  using headlines_endpoint_wins[of "Some ''JP''"
      "\<lparr>swr_data = Val (sample_detail [sample_headline 1]), swr_error = None,
        swr_isLoading = False\<rparr>"
      "sample_detail [sample_headline 1]"
      "\<lparr>swr_data = Val [sample_headline 2], swr_error = None, swr_isLoading = False\<rparr>"]
    headlines_endpoint_wins[of "Some ''JP''"
      "\<lparr>swr_data = Val (sample_detail [sample_headline 1]), swr_error = None,
        swr_isLoading = False\<rparr>"
      "sample_detail [sample_headline 1]"
      "\<lparr>swr_data = Undefined, swr_error = None, swr_isLoading = True\<rparr>"]
  by (simp add: sample_detail_def)

section \<open>The composite error of the country-detail hook\<close>

text \<open>
  C4, as stated, fails. The headlines fetch fails first (500), then the detail fetch fails
  (404). Both errors are stored, the first in time is the headlines error, and the hook
  exposes the detail error.
\<close>

theorem composite_error_counterexample:
  "swr_error (country_slot (deliver_all
       [HeadlinesRejected ''API error: 500'', CountryRejected ''API error: 404'']))
     = Some ''API error: 404''
   \<and> swr_error (headlines_slot (deliver_all
       [HeadlinesRejected ''API error: 500'', CountryRejected ''API error: 404'']))
     = Some ''API error: 500''
   \<and> first_error_in_time (deliver_all
       [HeadlinesRejected ''API error: 500'', CountryRejected ''API error: 404''])
     = Some ''API error: 500''
   \<and> error (hook_view (Some ''JP'') (deliver_all
       [HeadlinesRejected ''API error: 500'', CountryRejected ''API error: 404'']))
     = Some ''API error: 404''
   \<and> error (hook_view (Some ''JP'') (deliver_all
       [HeadlinesRejected ''API error: 500'', CountryRejected ''API error: 404'']))
     \<noteq> first_error_in_time (deliver_all
       [HeadlinesRejected ''API error: 500'', CountryRejected ''API error: 404''])"
  by (simp add: deliver_all_def initial_cache_def first_error_in_time_def hook_view_def
      useCountryDetail_def useSWR_def Let_def)

text \<open>
  C4, amended. Whenever both fetchers hold an error, the composite error is the error of
  the detail fetcher, whichever of the two arrived first: the detail fetcher has a fixed
  priority over the headlines fetcher.
\<close>

theorem composite_error_fixed_priority:
  assumes "truthy_str countryCode"
    and "swr_error (country_slot (deliver_all outcomes)) = Some ec"
    and "swr_error (headlines_slot (deliver_all outcomes)) = Some eh"
  shows "error (hook_view countryCode (deliver_all outcomes)) = Some ec"
  using assms by (simp add: hook_view_def useCountryDetail_def useSWR_def Let_def)

text \<open>
  Witness for C4 amended: with the two failures in either order, the composite error is
  the detail fetcher's 404.
\<close>

theorem composite_error_fixed_priority_witness:
  "error (hook_view (Some ''JP'') (deliver_all
      [HeadlinesRejected ''API error: 500'', CountryRejected ''API error: 404'']))
     = Some ''API error: 404''
   \<and> error (hook_view (Some ''JP'') (deliver_all
      [CountryRejected ''API error: 404'', HeadlinesRejected ''API error: 500'']))
     = Some ''API error: 404''"
  using composite_error_fixed_priority[of "Some ''JP''"
      "[HeadlinesRejected ''API error: 500'', CountryRejected ''API error: 404'']"
      "''API error: 404''" "''API error: 500''"]
    composite_error_fixed_priority[of "Some ''JP''"
      "[CountryRejected ''API error: 404'', HeadlinesRejected ''API error: 500'']"
      "''API error: 404''" "''API error: 500''"]
  by (simp add: deliver_all_def initial_cache_def)

section \<open>The sentiment buckets\<close>

lemma js_bucket_cases:
  "x \<noteq> NaN \<Longrightarrow>
     (if js_gt x (Num 0.2) then 1 else 0) + (if js_lt x (Num (- 0.2)) then 1 else 0)
       + (if js_ge x (Num (- 0.2)) \<and> js_le x (Num 0.2) then 1 else 0) = (1::nat)"
  by (cases x) (auto simp: js_gt_def js_ge_def)

lemma bucket_lengths:
  "\<forall>c \<in> set cs. sentiment_score c \<noteq> NaN \<Longrightarrow>
   length (filter (\<lambda>c. js_gt (sentiment_score c) (Num 0.2)) cs)
   + length (filter (\<lambda>c. js_lt (sentiment_score c) (Num (- 0.2))) cs)
   + length (filter (\<lambda>c. js_ge (sentiment_score c) (Num (- 0.2))
                          \<and> js_le (sentiment_score c) (Num 0.2)) cs)
   = length cs"
proof (induction cs)
  case Nil
  then show ?case by simp
next
  case (Cons c cs)
  then have "sentiment_score c \<noteq> NaN" by simp
  from js_bucket_cases[OF this] Cons show ?case
    by (auto split: if_splits)
qed

lemma js_not_pos_and_neg: "\<not> (js_gt x (Num 0.2) \<and> js_lt x (Num (- 0.2)))"
  by (cases x) (auto simp: js_gt_def)

lemma js_not_pos_and_neutral: "\<not> (js_gt x (Num 0.2) \<and> js_le x (Num 0.2))"
  by (cases x) (auto simp: js_gt_def)

lemma js_not_neg_and_neutral: "\<not> (js_lt x (Num (- 0.2)) \<and> js_ge x (Num (- 0.2)))"
  by (cases x) (auto simp: js_ge_def)

text \<open>
  C5, as stated, fails for a score that is NaN: each of the three filters is a comparison,
  every comparison with NaN is false, and the country lands in no bucket. The sizes of
  the buckets of a one-country list with such a score sum to 0, not 1.
\<close>

theorem buckets_nan_counterexample:
  "positiveCount (Some (sample_snapshot [sample_country ''US'' NaN]))
     + negativeCount (Some (sample_snapshot [sample_country ''US'' NaN]))
     + neutralCount (Some (sample_snapshot [sample_country ''US'' NaN])) = 0
   \<and> length (loadedCountries (Some (sample_snapshot [sample_country ''US'' NaN]))) = 1
   \<and> positiveCount (Some (sample_snapshot [sample_country ''US'' NaN]))
     + negativeCount (Some (sample_snapshot [sample_country ''US'' NaN]))
     + neutralCount (Some (sample_snapshot [sample_country ''US'' NaN]))
     \<noteq> length (loadedCountries (Some (sample_snapshot [sample_country ''US'' NaN])))"
  by (simp add: positiveCount_def negativeCount_def neutralCount_def positiveCountries_def
        negativeCountries_def neutralCountries_def loadedCountries_def sample_snapshot_def
        sample_country_def js_gt_def js_ge_def)

text \<open>
  C5, amended. For every list of countries none of whose scores is NaN (any finite score,
  inside or outside [-1, 1], and the infinities are allowed), the positive, negative and
  neutral buckets are pairwise disjoint and their sizes sum to the size of the list.
\<close>

theorem buckets_partition_non_nan:
  assumes "\<forall>c \<in> set (loadedCountries snapshot). sentiment_score c \<noteq> NaN"
  shows "positiveCount snapshot + negativeCount snapshot + neutralCount snapshot
           = length (loadedCountries snapshot)
         \<and> set (positiveCountries snapshot) \<inter> set (negativeCountries snapshot) = {}
         \<and> set (positiveCountries snapshot) \<inter> set (neutralCountries snapshot) = {}
         \<and> set (negativeCountries snapshot) \<inter> set (neutralCountries snapshot) = {}"
proof (cases snapshot)
  case None
  then show ?thesis
    by (simp add: positiveCount_def negativeCount_def neutralCount_def positiveCountries_def
        negativeCountries_def neutralCountries_def loadedCountries_def)
next
  case (Some d)
  with assms have nn: "\<forall>c \<in> set (countries d). sentiment_score c \<noteq> NaN"
    by (simp add: loadedCountries_def)
  have len: "positiveCount snapshot + negativeCount snapshot + neutralCount snapshot
           = length (loadedCountries snapshot)"
    using bucket_lengths[OF nn] Some
    by (simp add: positiveCount_def negativeCount_def neutralCount_def positiveCountries_def
        negativeCountries_def neutralCountries_def loadedCountries_def)
  have d1: "set (positiveCountries snapshot) \<inter> set (negativeCountries snapshot) = {}"
    using Some js_not_pos_and_neg
    by (auto simp: positiveCountries_def negativeCountries_def)
  have d2: "set (positiveCountries snapshot) \<inter> set (neutralCountries snapshot) = {}"
    using Some js_not_pos_and_neutral
    by (auto simp: positiveCountries_def neutralCountries_def)
  have d3: "set (negativeCountries snapshot) \<inter> set (neutralCountries snapshot) = {}"
    using Some js_not_neg_and_neutral
    by (auto simp: negativeCountries_def neutralCountries_def)
  from len d1 d2 d3 show ?thesis by simp
qed

text \<open>
  Witness for C5 amended: four countries with scores 0.5, -0.5, 0 and +Infinity; the
  bucket sizes sum to 4.
\<close>

theorem buckets_partition_non_nan_witness:
  "positiveCount (Some (sample_snapshot
      [sample_country ''JP'' (Num 0.5), sample_country ''US'' (Num (- 0.5)),
       sample_country ''DE'' (Num 0), sample_country ''FR'' PosInf]))
   + negativeCount (Some (sample_snapshot
      [sample_country ''JP'' (Num 0.5), sample_country ''US'' (Num (- 0.5)),
       sample_country ''DE'' (Num 0), sample_country ''FR'' PosInf]))
   + neutralCount (Some (sample_snapshot
      [sample_country ''JP'' (Num 0.5), sample_country ''US'' (Num (- 0.5)),
       sample_country ''DE'' (Num 0), sample_country ''FR'' PosInf])) = 4"
  using buckets_partition_non_nan[of "Some (sample_snapshot
      [sample_country ''JP'' (Num 0.5), sample_country ''US'' (Num (- 0.5)),
       sample_country ''DE'' (Num 0), sample_country ''FR'' PosInf])"]
  by (simp add: loadedCountries_def sample_snapshot_def sample_country_def)

section \<open>The colour mapper: anchors, continuity, monotonicity\<close>

lemma clamp_mono: "a \<le> b \<Longrightarrow> clamp a lo hi \<le> clamp b lo hi"
  by (simp add: clamp_def min_def max_def)

lemma clamp_neg: "a < 0 \<Longrightarrow> clamp a (- 1) 1 < 0"
  by (simp add: clamp_def min_def max_def)

lemma clamp_nonneg: "0 \<le> a \<Longrightarrow> 0 \<le> clamp a (- 1) 1"
  by (simp add: clamp_def min_def max_def)

lemma color_neg_branch:
  "s < 0 \<Longrightarrow> interpolateSentimentColor s =
     \<lparr>red = round (196 - 12 * (clamp s (- 1) 1 + 1)),
      green = round (131 + 37 * (clamp s (- 1) 1 + 1)),
      blue = round (122 + 30 * (clamp s (- 1) 1 + 1))\<rparr>"
  using clamp_neg[of s]
  by (simp add: interpolateSentimentColor_def Let_def negative_def neutral_def)

lemma color_pos_branch:
  "0 \<le> s \<Longrightarrow> interpolateSentimentColor s =
     \<lparr>red = round (184 - 77 * clamp s (- 1) 1),
      green = round (168 - 26 * clamp s (- 1) 1),
      blue = round (152 - 45 * clamp s (- 1) 1)\<rparr>"
  using clamp_nonneg[of s]
  by (simp add: interpolateSentimentColor_def Let_def positive_def neutral_def not_less)

lemma color_at_zero: "interpolateSentimentColor 0 = neutral"
  by (simp add: color_pos_branch clamp_def neutral_def)

lemma color_near_zero:
  assumes "- 1 / 74 \<le> s" "s \<le> 1 / 154"
  shows "interpolateSentimentColor s = neutral"
proof (cases "s < 0")
  case True
  with assms have c: "clamp s (- 1) 1 = s" by (simp add: clamp_def min_def max_def)
  have "round (196 - 12 * (s + 1)) = 184"
    by (rule round_unique) (use True assms in auto)
  moreover have "round (131 + 37 * (s + 1)) = 168"
    by (rule round_unique) (use True assms in auto)
  moreover have "round (122 + 30 * (s + 1)) = 152"
    by (rule round_unique) (use True assms in auto)
  ultimately show ?thesis using True c by (simp add: color_neg_branch neutral_def)
next
  case False
  with assms have c: "clamp s (- 1) 1 = s" by (simp add: clamp_def min_def max_def)
  have "round (184 - 77 * s) = 184"
    by (rule round_unique) (use False assms in auto)
  moreover have "round (168 - 26 * s) = 168"
    by (rule round_unique) (use False assms in auto)
  moreover have "round (152 - 45 * s) = 152"
    by (rule round_unique) (use False assms in auto)
  ultimately show ?thesis using False c by (simp add: color_pos_branch neutral_def)
qed

lemma color_left_of_zero:
  "eventually (\<lambda>s. interpolateSentimentColor s = neutral) (at_left 0)"
  unfolding eventually_at_left_field
  by (rule exI[of _ "- 1 / 74"]) (auto intro: color_near_zero)

text \<open>
  C6. The mapper yields the negative, neutral and positive anchors at -1, 0 and 1. It is
  continuous at 0: on the whole interval from -1/74 to 1/154, which reaches into both
  branches, the output is the neutral colour, and so each channel of the negative branch
  tends, as the score approaches 0 from below, to the channel of the non-negative branch
  at 0.
\<close>

theorem color_anchors_and_continuity:
  "interpolateSentimentColor (- 1) = negative
   \<and> interpolateSentimentColor 0 = neutral
   \<and> interpolateSentimentColor 1 = positive
   \<and> (\<forall>s. - 1 / 74 \<le> s \<and> s \<le> 1 / 154 \<longrightarrow>
          interpolateSentimentColor s = interpolateSentimentColor 0)
   \<and> ((\<lambda>s. real_of_int (red (interpolateSentimentColor s)))
         \<longlongrightarrow> real_of_int (red (interpolateSentimentColor 0))) (at_left 0)
   \<and> ((\<lambda>s. real_of_int (green (interpolateSentimentColor s)))
         \<longlongrightarrow> real_of_int (green (interpolateSentimentColor 0))) (at_left 0)
   \<and> ((\<lambda>s. real_of_int (blue (interpolateSentimentColor s)))
         \<longlongrightarrow> real_of_int (blue (interpolateSentimentColor 0))) (at_left 0)"
proof -
  have a1: "interpolateSentimentColor (- 1) = negative"
    by (simp add: color_neg_branch clamp_def negative_def)
  have a3: "interpolateSentimentColor 1 = positive"
    by (simp add: color_pos_branch clamp_def positive_def)
  have near: "\<forall>s. - 1 / 74 \<le> s \<and> s \<le> 1 / 154 \<longrightarrow>
                interpolateSentimentColor s = interpolateSentimentColor 0"
    by (simp add: color_near_zero color_at_zero)
  have ev: "eventually (\<lambda>s. f (interpolateSentimentColor s) = f (interpolateSentimentColor 0))
              (at_left 0)" for f :: "rgb \<Rightarrow> real"
    using color_left_of_zero by (rule eventually_mono) (simp add: color_at_zero)
  have l: "((\<lambda>s. f (interpolateSentimentColor s)) \<longlongrightarrow> f (interpolateSentimentColor 0))
             (at_left 0)" for f :: "rgb \<Rightarrow> real"
    by (rule tendsto_eventually) (rule ev)
  show ?thesis
    using a1 a3 color_at_zero near l[of "\<lambda>c. real_of_int (red c)"]
      l[of "\<lambda>c. real_of_int (green c)"] l[of "\<lambda>c. real_of_int (blue c)"]
    by blast
qed

text \<open>
  Witness for C6: at the score -1/100, in the negative branch, the colour is the one at 0,
  which is the neutral anchor (184, 168, 152).
\<close>

theorem color_anchors_and_continuity_witness:
  "- 1 / 74 \<le> (- 1 / 100 :: real) \<and> (- 1 / 100 :: real) \<le> 1 / 154
   \<and> interpolateSentimentColor (- 1 / 100) = interpolateSentimentColor 0
   \<and> interpolateSentimentColor 0 = \<lparr>red = 184, green = 168, blue = 152\<rparr>"
proof -
  have h: "- 1 / 74 \<le> (- 1 / 100 :: real) \<and> (- 1 / 100 :: real) \<le> 1 / 154" by simp
  have "interpolateSentimentColor (- 1 / 100) = interpolateSentimentColor 0"
    using color_anchors_and_continuity h by blast
  moreover have "interpolateSentimentColor 0 = \<lparr>red = 184, green = 168, blue = 152\<rparr>"
    using color_anchors_and_continuity by (simp add: neutral_def)
  ultimately show ?thesis using h by blast
qed

text \<open>
  C7. For scores \<open>s1 < s2\<close> in the same branch each channel of the rounded output is
  monotonic, in a direction fixed per channel and branch: for scores up to 0, red does not
  increase and green and blue do not decrease; for scores from 0 on, none of the three
  channels increases.
\<close>

theorem color_monotone:
  assumes "s1 < s2"
  shows "(s2 \<le> 0 \<longrightarrow>
            red (interpolateSentimentColor s2) \<le> red (interpolateSentimentColor s1)
          \<and> green (interpolateSentimentColor s1) \<le> green (interpolateSentimentColor s2)
          \<and> blue (interpolateSentimentColor s1) \<le> blue (interpolateSentimentColor s2))
       \<and> (0 \<le> s1 \<longrightarrow>
            red (interpolateSentimentColor s2) \<le> red (interpolateSentimentColor s1)
          \<and> green (interpolateSentimentColor s2) \<le> green (interpolateSentimentColor s1)
          \<and> blue (interpolateSentimentColor s2) \<le> blue (interpolateSentimentColor s1))"
proof (intro conjI impI)
  assume le: "s2 \<le> 0"
  with assms have n1: "s1 < 0" by simp
  have c12: "clamp s1 (- 1) 1 \<le> clamp s2 (- 1) 1" using assms by (simp add: clamp_mono)
  have c1: "clamp s1 (- 1) 1 + 1 \<le> 1" using clamp_neg[OF n1] by simp
  show "red (interpolateSentimentColor s2) \<le> red (interpolateSentimentColor s1)"
  proof (cases "s2 < 0")
    case True
    then show ?thesis using n1 c12 by (simp add: color_neg_branch round_mono)
  next
    case False
    with le have "s2 = 0" by simp
    moreover have "round (184::real) \<le> round (196 - 12 * (clamp s1 (- 1) 1 + 1))"
      by (rule round_mono) (use c1 in simp)
    ultimately show ?thesis using n1 by (simp add: color_neg_branch color_at_zero neutral_def)
  qed
  show "green (interpolateSentimentColor s1) \<le> green (interpolateSentimentColor s2)"
  proof (cases "s2 < 0")
    case True
    then show ?thesis using n1 c12 by (simp add: color_neg_branch round_mono)
  next
    case False
    with le have "s2 = 0" by simp
    moreover have "round (131 + 37 * (clamp s1 (- 1) 1 + 1)) \<le> round (168::real)"
      by (rule round_mono) (use c1 in simp)
    ultimately show ?thesis using n1 by (simp add: color_neg_branch color_at_zero neutral_def)
  qed
  show "blue (interpolateSentimentColor s1) \<le> blue (interpolateSentimentColor s2)"
  proof (cases "s2 < 0")
    case True
    then show ?thesis using n1 c12 by (simp add: color_neg_branch round_mono)
  next
    case False
    with le have "s2 = 0" by simp
    moreover have "round (122 + 30 * (clamp s1 (- 1) 1 + 1)) \<le> round (152::real)"
      by (rule round_mono) (use c1 in simp)
    ultimately show ?thesis using n1 by (simp add: color_neg_branch color_at_zero neutral_def)
  qed
next
  assume ge: "0 \<le> s1"
  with assms have p2: "0 \<le> s2" by simp
  have c12: "clamp s1 (- 1) 1 \<le> clamp s2 (- 1) 1" using assms by (simp add: clamp_mono)
  show "red (interpolateSentimentColor s2) \<le> red (interpolateSentimentColor s1)"
    using ge p2 c12 by (simp add: color_pos_branch round_mono)
  show "green (interpolateSentimentColor s2) \<le> green (interpolateSentimentColor s1)"
    using ge p2 c12 by (simp add: color_pos_branch round_mono)
  show "blue (interpolateSentimentColor s2) \<le> blue (interpolateSentimentColor s1)"
    using ge p2 c12 by (simp add: color_pos_branch round_mono)
qed

text \<open>
  Witness for C7: the scores -1/2 and -1/4 in the negative branch, 1/4 and 1/2 in the
  non-negative branch.
\<close>

theorem color_monotone_witness:
  "(- 1 / 2 :: real) < - 1 / 4 \<and> (- 1 / 4 :: real) \<le> 0
   \<and> red (interpolateSentimentColor (- 1 / 4)) \<le> red (interpolateSentimentColor (- 1 / 2))
   \<and> green (interpolateSentimentColor (- 1 / 2)) \<le> green (interpolateSentimentColor (- 1 / 4))
   \<and> blue (interpolateSentimentColor (- 1 / 2)) \<le> blue (interpolateSentimentColor (- 1 / 4))
   \<and> (1 / 4 :: real) < 1 / 2 \<and> (0 :: real) \<le> 1 / 4
   \<and> red (interpolateSentimentColor (1 / 2)) \<le> red (interpolateSentimentColor (1 / 4))
   \<and> green (interpolateSentimentColor (1 / 2)) \<le> green (interpolateSentimentColor (1 / 4))
   \<and> blue (interpolateSentimentColor (1 / 2)) \<le> blue (interpolateSentimentColor (1 / 4))"
  using color_monotone[of "- 1 / 2" "- 1 / 4"] color_monotone[of "1 / 4" "1 / 2"]
  by simp

section \<open>The geo projector\<close>

lemma sphere_identity:
  fixes sp cp st ct rad :: real
  assumes "sp\<^sup>2 + cp\<^sup>2 = 1" "st\<^sup>2 + ct\<^sup>2 = 1"
  shows "(- rad * sp * ct)\<^sup>2 + (rad * cp)\<^sup>2 + (rad * sp * st)\<^sup>2 = rad\<^sup>2"
proof -
  have "(- rad * sp * ct)\<^sup>2 + (rad * cp)\<^sup>2 + (rad * sp * st)\<^sup>2
        = rad\<^sup>2 * (sp\<^sup>2 * (st\<^sup>2 + ct\<^sup>2) + cp\<^sup>2)"
    by (simp add: algebra_simps)
  also have "\<dots> = rad\<^sup>2" using assms by simp
  finally show ?thesis .
qed

text \<open>
  C8. For a latitude in [-90, 90], a longitude in [-180, 180] and a radius \<open>r > 0\<close>, the
  projected point lies on the sphere of radius \<open>r\<close>: \<open>x\<^sup>2 + y\<^sup>2 + z\<^sup>2 = r\<^sup>2\<close>, over the reals.
\<close>

theorem projection_on_sphere:
  assumes "- 90 \<le> lat" "lat \<le> 90" "- 180 \<le> lon" "lon \<le> 180" "0 < radius"
  shows "(vx (latLongToVector3 lat lon radius))\<^sup>2 + (vy (latLongToVector3 lat lon radius))\<^sup>2
           + (vz (latLongToVector3 lat lon radius))\<^sup>2 = radius\<^sup>2"
  using sphere_identity[of "sin ((90 - lat) * (pi / 180))" "cos ((90 - lat) * (pi / 180))"
      "sin ((lon + 180) * (pi / 180))" "cos ((lon + 180) * (pi / 180))" radius]
  by (simp add: latLongToVector3_def Let_def)

text \<open>
  Witness for C8: the marker of the United States, centre (37.1, -95.7), at the radius
  1.025 the globe uses.
\<close>

theorem projection_on_sphere_witness:
  "(- 90 :: real) \<le> 37.1 \<and> (37.1 :: real) \<le> 90 \<and> (- 180 :: real) \<le> - 95.7
   \<and> (- 95.7 :: real) \<le> 180 \<and> (0 :: real) < 1.025
   \<and> (vx (latLongToVector3 37.1 (- 95.7) 1.025))\<^sup>2
       + (vy (latLongToVector3 37.1 (- 95.7) 1.025))\<^sup>2
       + (vz (latLongToVector3 37.1 (- 95.7) 1.025))\<^sup>2 = 1.025\<^sup>2"
  using projection_on_sphere[of "37.1" "- 95.7" "1.025"] by simp

section \<open>Labels against buckets at the thresholds\<close>

text \<open>
  C9. A country of the loaded list whose score is exactly 0.2 is labelled Positive, and
  one whose score is exactly -0.2 is labelled Negative, while the bucket partition puts
  either of them in the neutral bucket and in neither of the other two.
\<close>

theorem label_bucket_boundary:
  assumes "snapshot = Some d" and "c \<in> set (countries d)"
  shows "(sentiment_score c = Num 0.2 \<longrightarrow>
            getSentimentLabel (sentiment_score c) = ''Positive''
            \<and> c \<in> set (neutralCountries snapshot) \<and> c \<notin> set (positiveCountries snapshot)
            \<and> c \<notin> set (negativeCountries snapshot))
       \<and> (sentiment_score c = Num (- 0.2) \<longrightarrow>
            getSentimentLabel (sentiment_score c) = ''Negative''
            \<and> c \<in> set (neutralCountries snapshot) \<and> c \<notin> set (positiveCountries snapshot)
            \<and> c \<notin> set (negativeCountries snapshot))"
  using assms
  by (auto simp: getSentimentLabel_def positiveCountries_def negativeCountries_def
      neutralCountries_def js_gt_def js_ge_def)

text \<open>
  Witness for C9: a snapshot with US at 0.2 and BR at -0.2.
\<close>

theorem label_bucket_boundary_witness:
  "getSentimentLabel (sentiment_score (sample_country ''US'' (Num 0.2))) = ''Positive''
   \<and> sample_country ''US'' (Num 0.2) \<in> set (neutralCountries (Some (sample_snapshot
        [sample_country ''US'' (Num 0.2), sample_country ''BR'' (Num (- 0.2))])))
   \<and> sample_country ''US'' (Num 0.2) \<notin> set (positiveCountries (Some (sample_snapshot
        [sample_country ''US'' (Num 0.2), sample_country ''BR'' (Num (- 0.2))])))
   \<and> getSentimentLabel (sentiment_score (sample_country ''BR'' (Num (- 0.2)))) = ''Negative''
   \<and> sample_country ''BR'' (Num (- 0.2)) \<in> set (neutralCountries (Some (sample_snapshot
        [sample_country ''US'' (Num 0.2), sample_country ''BR'' (Num (- 0.2))])))
   \<and> sample_country ''BR'' (Num (- 0.2)) \<notin> set (negativeCountries (Some (sample_snapshot
        [sample_country ''US'' (Num 0.2), sample_country ''BR'' (Num (- 0.2))])))"
proof -
  let ?d = "sample_snapshot [sample_country ''US'' (Num 0.2), sample_country ''BR'' (Num (- 0.2))]"
  have us: "sample_country ''US'' (Num 0.2) \<in> set (countries ?d)"
    by (simp add: sample_snapshot_def)
  have br: "sample_country ''BR'' (Num (- 0.2)) \<in> set (countries ?d)"
    by (simp add: sample_snapshot_def)
  have s1: "sentiment_score (sample_country ''US'' (Num 0.2)) = Num 0.2"
    by (simp add: sample_country_def)
  have s2: "sentiment_score (sample_country ''BR'' (Num (- 0.2))) = Num (- 0.2)"
    by (simp add: sample_country_def)
  from label_bucket_boundary[OF refl us] label_bucket_boundary[OF refl br] s1 s2
  show ?thesis by blast
qed

section \<open>An empty headlines result\<close>

text \<open>
  C10. With the detail fetch resolved and the headlines endpoint resolved to the empty
  list, the headline list of the composite is empty: an empty array is truthy, so the
  headlines embedded in the detail are used only while the headlines result is absent.
\<close>

theorem empty_headlines_not_replaced:
  assumes "truthy_str countryCode" and "swr_data countryEntry = Val cd"
    and "swr_data headlinesEntry = Val []"
  shows "map_option top_headlines (data (useCountryDetail countryCode countryEntry headlinesEntry))
         = Some []"
  using assms by (simp add: useCountryDetail_def useSWR_def Let_def)

text \<open>
  Witness for C10: the detail embeds headline 1, the headlines endpoint returned nothing;
  the composite shows no headline.
\<close>

theorem empty_headlines_not_replaced_witness:
  "top_headlines (sample_detail [sample_headline 1]) = [sample_headline 1]
   \<and> map_option top_headlines
     (data (useCountryDetail (Some ''JP'')
        \<lparr>swr_data = Val (sample_detail [sample_headline 1]), swr_error = None,
         swr_isLoading = False\<rparr>
        \<lparr>swr_data = Val [], swr_error = None, swr_isLoading = False\<rparr>))
     = Some []"
  using empty_headlines_not_replaced[of "Some ''JP''"
      "\<lparr>swr_data = Val (sample_detail [sample_headline 1]), swr_error = None,
        swr_isLoading = False\<rparr>"
      "sample_detail [sample_headline 1]"
      "\<lparr>swr_data = Val [], swr_error = None, swr_isLoading = False\<rparr>"]
  by (simp add: sample_detail_def)

end
